theory Spec2Isabelle
  imports Main "HOL-Library.AList" "HOL-Library.Word"
begin

section \<open>The file sharing server of \<^verbatim>\<open>server.py\<close>\<close>

text \<open>
  The development embeds the classes \<^verbatim>\<open>Room\<close> and \<^verbatim>\<open>FileServer\<close> of
  \<^verbatim>\<open>24560025_FinalProject/server.py\<close>. Conventions of the embedding:
  \<^item> a Python \<^verbatim>\<open>dict\<close> is an association list in insertion order; \<^verbatim>\<open>d[k] = v\<close> is
    \<open>AList.update\<close> (an existing key keeps its position, a new key goes to the end),
    \<^verbatim>\<open>del d[k]\<close> is \<open>AList.delete\<close>, \<^verbatim>\<open>k in d\<close> and \<^verbatim>\<open>d[k]\<close> read \<open>map_of\<close>;
  \<^item> a Python \<^verbatim>\<open>str\<close> is a \<open>string\<close>, one \<open>char\<close> for each code point below 256, so
    that \<open>length\<close> counts what \<^verbatim>\<open>len\<close> counts;
  \<^item> the values of request fields are strings, integers or \<^verbatim>\<open>None\<close> (the JSON types of the
    command schema); an operation that Python refuses on a value of the wrong type is a
    branch of the model that goes to the handler's \<^verbatim>\<open>except\<close> clause;
  \<^item> every handler runs as one step on the server state: the interleaving of the handler
    threads inside a handler is not part of the model;
  \<^item> the results of \<^verbatim>\<open>uuid.uuid4()\<close>, \<^verbatim>\<open>datetime.now()\<close>, \<^verbatim>\<open>mimetypes.guess_type\<close> and
    \<^verbatim>\<open>json.loads\<close> are inputs of the model (the record \<open>env\<close>);
  \<^item> the file system holds directories of plain files; its operations fail only where
    the path they are given does not exist. A socket delivers the bytes its peer sent,
    in segments of any size, and then reports the close; timeouts and resets are left out;
  \<^item> logging is left out.
\<close>

subsection \<open>Python values\<close>

type_synonym byte = "8 word"

type_synonym sock = nat

datatype jval = JStr string | JInt int | JNull

type_synonym ('k, 'v) dict = "('k \<times> 'v) list"

text \<open>\<^verbatim>\<open>d.get(k, default)\<close>\<close>

definition dget :: "('k, 'v) dict \<Rightarrow> 'k \<Rightarrow> 'v \<Rightarrow> 'v" where
  "dget d k dflt = (case map_of d k of None \<Rightarrow> dflt | Some v \<Rightarrow> v)"

text \<open>\<^verbatim>\<open>k in d\<close>\<close>

definition has_key :: "('k, 'v) dict \<Rightarrow> 'k \<Rightarrow> bool" where
  "has_key d k = (map_of d k \<noteq> None)"

text \<open>
  \<^verbatim>\<open>str.isspace\<close> on one character, for the code points below 256: the ASCII white space,
  the separators FS, GS, RS and US, NEL and the no-break space.
\<close>

definition py_isspace :: "char \<Rightarrow> bool" where
  "py_isspace ch = ((of_char ch :: nat) \<in> {9, 10, 11, 12, 13, 28, 29, 30, 31, 32, 133, 160})"

text \<open>\<^verbatim>\<open>s.strip()\<close>\<close>

definition py_strip :: "string \<Rightarrow> string" where
  "py_strip s = rev (dropWhile py_isspace (rev (dropWhile py_isspace s)))"

text \<open>\<^verbatim>\<open>v.strip()\<close> on a field value: \<open>None\<close> is the AttributeError of a value that is no string.\<close>

definition strip_val :: "jval \<Rightarrow> string option" where
  "strip_val v = (case v of JStr s \<Rightarrow> Some (py_strip s) | _ \<Rightarrow> None)"

text \<open>Truth value of a field value, as \<^verbatim>\<open>not v\<close> tests it.\<close>

definition truthy :: "jval \<Rightarrow> bool" where
  "truthy v = (case v of JStr s \<Rightarrow> s \<noteq> [] | JInt i \<Rightarrow> i \<noteq> 0 | JNull \<Rightarrow> False)"

text \<open>\<^verbatim>\<open>str(v)\<close>, as an f-string formats a field value.\<close>

definition digit_char :: "nat \<Rightarrow> char" where
  "digit_char d = ''0123456789'' ! d"

fun nat_str :: "nat \<Rightarrow> string" where
  "nat_str n = (if n < 10 then [digit_char n] else nat_str (n div 10) @ [digit_char (n mod 10)])"

definition py_str :: "jval \<Rightarrow> string" where
  "py_str v = (case v of JStr s \<Rightarrow> s
     | JInt i \<Rightarrow> (if i < 0 then CHR ''-'' # nat_str (nat (- i)) else nat_str (nat i))
     | JNull \<Rightarrow> ''None'')"

text \<open>\<^verbatim>\<open>os.path.join(a, b)\<close> of \<^verbatim>\<open>posixpath\<close>, for two components.\<close>

definition path_join :: "string \<Rightarrow> string \<Rightarrow> string" where
  "path_join a b =
     (if b \<noteq> [] \<and> hd b = CHR ''/'' then b
      else if a = [] \<or> last a = CHR ''/'' then a @ b
      else a @ ''/'' @ b)"

text \<open>
  \<^verbatim>\<open>os.path.splitext(p)[1]\<close> of \<^verbatim>\<open>posixpath\<close>: the extension starts at the last dot of the
  last path component, unless only dots come before it in that component.
\<close>

definition last_component :: "string \<Rightarrow> string" where
  "last_component p = rev (takeWhile (\<lambda>ch. ch \<noteq> CHR ''/'') (rev p))"

definition splitext_ext :: "string \<Rightarrow> string" where
  "splitext_ext p =
     (let comp = last_component p;
          ext = rev (takeWhile (\<lambda>ch. ch \<noteq> CHR ''.'') (rev comp));
          stem = take (length comp - length ext - 1) comp
      in if CHR ''.'' \<in> set comp \<and> (\<exists>ch \<in> set stem. ch \<noteq> CHR ''.'') then CHR ''.'' # ext else [])"

subsection \<open>The file system\<close>

text \<open>
  A directory path is mapped to its entries, a file name to the file's bytes. The path
  \<^verbatim>\<open>os.path.join(room_dir, stored_filename)\<close> of a stored file is the pair of the two.
\<close>

type_synonym filesys = "string \<rightharpoonup> (string \<rightharpoonup> byte list)"

text \<open>\<^verbatim>\<open>os.makedirs(d, exist_ok=True)\<close>\<close>

definition makedirs :: "string \<Rightarrow> filesys \<Rightarrow> filesys" where
  "makedirs d fsys = (case fsys d of None \<Rightarrow> fsys(d \<mapsto> Map.empty) | Some _ \<Rightarrow> fsys)"

text \<open>\<^verbatim>\<open>os.path.exists\<close> of a directory and of a file in a directory\<close>

definition dir_exists :: "string \<Rightarrow> filesys \<Rightarrow> bool" where
  "dir_exists d fsys = (fsys d \<noteq> None)"

definition file_exists :: "string \<times> string \<Rightarrow> filesys \<Rightarrow> bool" where
  "file_exists p fsys = (case fsys (fst p) of None \<Rightarrow> False | Some entries \<Rightarrow> entries (snd p) \<noteq> None)"

text \<open>\<^verbatim>\<open>shutil.rmtree(d)\<close>; \<open>None\<close> is the FileNotFoundError.\<close>

definition rmtree :: "string \<Rightarrow> filesys \<Rightarrow> filesys option" where
  "rmtree d fsys = (case fsys d of None \<Rightarrow> None | Some entries \<Rightarrow> Some (fsys(d := None)))"

text \<open>
  \<^verbatim>\<open>open(p, 'wb')\<close> creates the file or truncates it; \<open>None\<close> is its error when the
  directory is missing. \<open>write_file\<close> is the effect of the \<^verbatim>\<open>write\<close> calls on the open
  file, whose bytes are \<open>content\<close> when the \<^verbatim>\<open>with\<close> block closes it.
\<close>

definition open_wb :: "string \<times> string \<Rightarrow> filesys \<Rightarrow> filesys option" where
  "open_wb p fsys =
     (case fsys (fst p) of None \<Rightarrow> None
      | Some entries \<Rightarrow> Some (fsys(fst p \<mapsto> entries(snd p \<mapsto> []))))"

definition write_file :: "string \<times> string \<Rightarrow> byte list \<Rightarrow> filesys \<Rightarrow> filesys" where
  "write_file p content fsys =
     (case fsys (fst p) of None \<Rightarrow> fsys
      | Some entries \<Rightarrow> fsys(fst p \<mapsto> entries(snd p \<mapsto> content)))"

text \<open>\<^verbatim>\<open>os.remove(p)\<close>; \<open>None\<close> is the FileNotFoundError.\<close>

definition os_remove :: "string \<times> string \<Rightarrow> filesys \<Rightarrow> filesys option" where
  "os_remove p fsys =
     (case fsys (fst p) of None \<Rightarrow> None
      | Some entries \<Rightarrow>
          (if entries (snd p) = None then None
           else Some (fsys(fst p \<mapsto> entries(snd p := None)))))"

definition read_file :: "string \<times> string \<Rightarrow> filesys \<Rightarrow> byte list option" where
  "read_file p fsys = (case fsys (fst p) of None \<Rightarrow> None | Some entries \<Rightarrow> entries (snd p))"

subsection \<open>Sockets\<close>

text \<open>
  The input of a socket is the list of the segments that are still to arrive; when the
  list is used up the peer has closed. \<^verbatim>\<open>sock.recv(n)\<close> returns at most \<open>n\<close> bytes of the
  next segment, and the empty byte string after the close.
\<close>

fun recv :: "nat \<Rightarrow> byte list list \<Rightarrow> byte list \<times> byte list list" where
  "recv n [] = ([], [])"
| "recv n (seg # rest) =
     (if seg = [] then recv n rest
      else (take n seg, if length seg \<le> n then rest else drop n seg # rest))"

text \<open>\<^verbatim>\<open>struct.unpack('!I', b)[0]\<close>; \<open>None\<close> is the \<^verbatim>\<open>struct.error\<close> of a buffer that is not 4 bytes long.\<close>

definition unpack_be32 :: "byte list \<Rightarrow> nat option" where
  "unpack_be32 b =
     (case b of
        [b0, b1, b2, b3] \<Rightarrow> Some (((unat b0 * 256 + unat b1) * 256 + unat b2) * 256 + unat b3)
      | _ \<Rightarrow> None)"

text \<open>The loop \<^verbatim>\<open>while len(data) < length\<close> of \<^verbatim>\<open>receive_request\<close>.\<close>

function recv_payload :: "nat \<Rightarrow> byte list \<Rightarrow> byte list list \<Rightarrow> byte list option \<times> byte list list" where
  "recv_payload len data inp =
     (if length data < len then
        (case recv (min 8192 (len - length data)) inp of
           (chunk, inp') \<Rightarrow>
             if chunk = [] then (None, inp')
             else recv_payload len (data @ chunk) inp')
      else (Some data, inp))"
  by pat_completeness auto
termination
  by (relation "measure (\<lambda>(len, data, inp). len - length data)") (auto simp: neq_Nil_conv)

declare recv_payload.simps [simp del]

text \<open>The loop \<^verbatim>\<open>while received < file_size\<close> of \<^verbatim>\<open>handle_upload\<close>; \<open>content\<close> is what \<^verbatim>\<open>f.write\<close> has written.\<close>

function upload_loop :: "int \<Rightarrow> int \<Rightarrow> byte list \<Rightarrow> byte list list \<Rightarrow> int \<times> byte list \<times> byte list list" where
  "upload_loop file_size received content inp =
     (if received < file_size then
        (case recv (nat (min 8192 (file_size - received))) inp of
           (chunk, inp') \<Rightarrow>
             if chunk = [] then (received, content, inp')
             else upload_loop file_size (received + int (length chunk)) (content @ chunk) inp')
      else (received, content, inp))"
  by pat_completeness auto
termination
  by (relation "measure (\<lambda>(file_size, received, content, inp). nat (file_size - received))")
    (auto simp: neq_Nil_conv)

declare upload_loop.simps [simp del]

text \<open>The loop \<^verbatim>\<open>chunk = f.read(8192)\<close> of \<^verbatim>\<open>handle_download\<close>: the chunks that are sent.\<close>

function read_chunks :: "byte list \<Rightarrow> byte list list" where
  "read_chunks content =
     (let chunk = take 8192 content
      in if chunk = [] then [] else chunk # read_chunks (drop 8192 content))"
  by pat_completeness auto
termination
  by (relation "measure length") (auto simp: neq_Nil_conv)

declare read_chunks.simps [simp del]

subsection \<open>Rooms\<close>

text \<open>
  The dictionary \<^verbatim>\<open>file_info\<close> of an uploaded file and the class \<^verbatim>\<open>Room\<close>. Fields carry a
  prefix, \<open>f_name\<close> for \<^verbatim>\<open>file_info['name']\<close> and \<open>r_name\<close> for \<^verbatim>\<open>room.name\<close>.
\<close>

record file_info =
  f_id :: string
  f_name :: string
  f_filename :: string
  f_size :: int
  f_type :: string
  f_uploader :: jval
  f_description :: jval
  f_date :: string

record room =
  r_id :: string
  r_name :: string
  r_owner :: jval
  r_members :: "jval set"
  r_files :: "(string, file_info) dict"
  r_created_at :: string
  r_room_dir :: string

text \<open>\<^verbatim>\<open>Room.__init__\<close>: the new room and the file system with its directory.\<close>

definition Room_init :: "string \<Rightarrow> string \<Rightarrow> jval \<Rightarrow> string \<Rightarrow> filesys \<Rightarrow> room \<times> filesys" where
  "Room_init room_id room_name owner created fsys =
     (let d = path_join ''rooms'' room_id
      in (\<lparr>r_id = room_id, r_name = room_name, r_owner = owner, r_members = {}, r_files = [],
           r_created_at = created, r_room_dir = d\<rparr>,
          makedirs d fsys))"

definition add_member :: "jval \<Rightarrow> room \<Rightarrow> room" where
  "add_member username room = room\<lparr>r_members := insert username (r_members room)\<rparr>"

definition remove_member :: "jval \<Rightarrow> room \<Rightarrow> room" where
  "remove_member username room = room\<lparr>r_members := r_members room - {username}\<rparr>"

definition add_file :: "file_info \<Rightarrow> room \<Rightarrow> room" where
  "add_file info room = room\<lparr>r_files := AList.update (f_id info) info (r_files room)\<rparr>"

text \<open>\<^verbatim>\<open>Room.remove_file\<close>: the returned truth value, the room and the file system.\<close>

definition remove_file :: "string \<Rightarrow> room \<Rightarrow> filesys \<Rightarrow> bool \<times> room \<times> filesys" where
  "remove_file file_id room fsys =
     (case map_of (r_files room) file_id of
        None \<Rightarrow> (False, room, fsys)
      | Some info \<Rightarrow>
          (let file_path = (r_room_dir room, f_filename info);
               room' = room\<lparr>r_files := AList.delete file_id (r_files room)\<rparr>
           in if file_exists file_path fsys then
                (case os_remove file_path fsys of
                   None \<Rightarrow> (False, room, fsys)
                 | Some fsys' \<Rightarrow> (True, room', fsys'))
              else (True, room', fsys)))"

text \<open>Values of a response: a string, a field value, a number, a list of dictionaries.\<close>

datatype rval = S string | V jval | N int | L "(string \<times> rval) list list"

type_synonym response = "(string, rval) dict"

definition get_file_list :: "room \<Rightarrow> response list" where
  "get_file_list room =
     map (\<lambda>(file_id, info).
            [(''id'', S file_id), (''name'', S (f_name info)), (''size'', N (f_size info)),
             (''type'', S (f_type info)), (''uploader'', V (f_uploader info)),
             (''date'', S (f_date info))])
         (r_files room)"

text \<open>\<^verbatim>\<open>Room.cleanup\<close>; an error of \<^verbatim>\<open>rmtree\<close> is caught, and the file system stays as it is.\<close>

definition cleanup :: "room \<Rightarrow> filesys \<Rightarrow> filesys" where
  "cleanup room fsys =
     (if dir_exists (r_room_dir room) fsys then
        (case rmtree (r_room_dir room) fsys of None \<Rightarrow> fsys | Some fsys' \<Rightarrow> fsys')
      else fsys)"

subsection \<open>The server state\<close>

record client_info =
  c_address :: string
  c_username :: jval
  c_connected_at :: string

datatype out = Resp response | Raw "byte list"

text \<open>
  The attributes of \<^verbatim>\<open>FileServer\<close>, and with them the world the server acts on: the file
  system, the bytes each socket is still to receive (\<open>net_in\<close>), what was sent on the
  sockets in the order of sending (\<open>sent\<close>), and the sockets the server closed.
\<close>

record server =
  running :: bool
  clients :: "(sock, client_info) dict"
  rooms :: "(string, room) dict"
  client_rooms :: "(sock, string) dict"
  fs :: filesys
  net_in :: "sock \<Rightarrow> byte list list"
  sent :: "(sock \<times> out) list"
  closed :: "sock set"

datatype jdoc = JObject "(string, jval) dict" | JNonObject

text \<open>What a handler takes from outside the program.\<close>

record env =
  uuid4 :: string
  now :: string
  guess_type :: "string \<Rightarrow> string option"
  loads :: "byte list \<Rightarrow> jdoc option"

text \<open>\<^verbatim>\<open>FileServer.__init__\<close>, the start of \<^verbatim>\<open>start_server\<close> and one accepted connection.\<close>

definition FileServer_init :: "filesys \<Rightarrow> server" where
  "FileServer_init fsys =
     \<lparr>running = False, clients = [], rooms = [], client_rooms = [], fs = makedirs ''rooms'' fsys,
      net_in = (\<lambda>c. []), sent = [], closed = {}\<rparr>"

definition start_server :: "server \<Rightarrow> server" where
  "start_server s = s\<lparr>running := True\<rparr>"

definition accept_client :: "sock \<Rightarrow> string \<Rightarrow> string \<Rightarrow> byte list list \<Rightarrow> server \<Rightarrow> server" where
  "accept_client c address connected inp s =
     s\<lparr>clients := AList.update c
           \<lparr>c_address = address, c_username = JStr ''Anonymous'', c_connected_at = connected\<rparr>
           (clients s),
       net_in := (net_in s)(c := inp)\<rparr>"

definition send_response :: "sock \<Rightarrow> response \<Rightarrow> server \<Rightarrow> server" where
  "send_response c r s = s\<lparr>sent := sent s @ [(c, Resp r)]\<rparr>"

definition error_response :: "string \<Rightarrow> response" where
  "error_response msg = [(''status'', S ''error''), (''message'', S msg)]"

text \<open>\<^verbatim>\<open>receive_request\<close> on the input of a socket: the decoded request and the input that is left.\<close>

definition receive_request :: "env \<Rightarrow> byte list list \<Rightarrow> jdoc option \<times> byte list list" where
  "receive_request e inp =
     (case recv 4 inp of
        (length_data, inp1) \<Rightarrow>
          if length_data = [] then (None, inp1)
          else (case unpack_be32 length_data of
                  None \<Rightarrow> (None, inp1)
                | Some len \<Rightarrow>
                    if len > 10 * 1024 * 1024 then (None, inp1)
                    else (case recv_payload len [] inp1 of
                            (None, inp2) \<Rightarrow> (None, inp2)
                          | (Some data, inp2) \<Rightarrow> (loads e data, inp2))))"

subsection \<open>The command handlers\<close>

text \<open>
  Each handler is the body of its \<^verbatim>\<open>try\<close> block, branch by branch; a branch that sends the
  handler's own failure message (\<^verbatim>\<open>'Failed to ...'\<close>) is the \<^verbatim>\<open>except\<close> clause, reached from
  the operation that raises.
\<close>

definition handle_create_room :: "sock \<Rightarrow> (string, jval) dict \<Rightarrow> env \<Rightarrow> server \<Rightarrow> server" where
  "handle_create_room c request e s =
     (case strip_val (dget request ''room_name'' (JStr [])) of
        None \<Rightarrow> send_response c (error_response ''Failed to create room'') s
      | Some room_name \<Rightarrow>
          (let username = dget request ''username'' (JStr ''Anonymous'')
           in if room_name = [] then
                send_response c (error_response ''Room name is required'') s
              else if length room_name > 50 then
                send_response c (error_response ''Room name too long (max 50 characters)'') s
              else
                (let room_id = take 8 (uuid4 e)
                 in case Room_init room_id room_name username (now e) (fs s) of
                      (room0, fsys) \<Rightarrow>
                        (let room = add_member username room0;
                             s1 = s\<lparr>fs := fsys, rooms := AList.update room_id room (rooms s)\<rparr>;
                             s2 = s1\<lparr>client_rooms := AList.update c room_id (client_rooms s1)\<rparr>
                         in send_response c
                              [(''status'', S ''success''),
                               (''message'', S (''Room '' @ [CHR 0x22] @ room_name @ [CHR 0x22] @ '' created successfully'')),
                               (''room_id'', S room_id),
                               (''room_name'', S room_name)] s2))))"

definition handle_join_room :: "sock \<Rightarrow> (string, jval) dict \<Rightarrow> env \<Rightarrow> server \<Rightarrow> server" where
  "handle_join_room c request e s =
     (case strip_val (dget request ''room_id'' (JStr [])) of
        None \<Rightarrow> send_response c (error_response ''Failed to join room'') s
      | Some room_id \<Rightarrow>
          (let username = dget request ''username'' (JStr ''Anonymous'')
           in if room_id = [] then
                send_response c (error_response ''Room ID is required'') s
              else if \<not> has_key (rooms s) room_id then
                send_response c (error_response ''Room not found'') s
              else
                (let s1 = (case map_of (client_rooms s) c of
                             None \<Rightarrow> s
                           | Some old_room_id \<Rightarrow>
                               (case map_of (rooms s) old_room_id of
                                  None \<Rightarrow> s
                                | Some old_room \<Rightarrow>
                                    s\<lparr>rooms := AList.update old_room_id
                                                 (remove_member username old_room) (rooms s)\<rparr>))
                 in case map_of (rooms s1) room_id of
                      None \<Rightarrow> send_response c (error_response ''Failed to join room'') s1
                    | Some room0 \<Rightarrow>
                        (let room = add_member username room0;
                             s2 = s1\<lparr>rooms := AList.update room_id room (rooms s1)\<rparr>;
                             s3 = s2\<lparr>client_rooms := AList.update c room_id (client_rooms s2)\<rparr>
                         in send_response c
                              [(''status'', S ''success''),
                               (''message'', S (''Joined room '' @ [CHR 0x22] @ r_name room @ [CHR 0x22] @ '' successfully'')),
                               (''room_id'', S room_id),
                               (''room_name'', S (r_name room))] s3))))"

definition handle_leave_room :: "sock \<Rightarrow> (string, jval) dict \<Rightarrow> env \<Rightarrow> server \<Rightarrow> server" where
  "handle_leave_room c request e s =
     (case map_of (clients s) c of
        None \<Rightarrow> send_response c (error_response ''Failed to leave room'') s
      | Some info \<Rightarrow>
          (let username = c_username info
           in case map_of (client_rooms s) c of
                None \<Rightarrow>
                  send_response c [(''status'', S ''success''), (''message'', S ''Not in any room'')] s
              | Some room_id \<Rightarrow>
                  (let s1 = (case map_of (rooms s) room_id of
                               None \<Rightarrow> s
                             | Some room \<Rightarrow>
                                 s\<lparr>rooms := AList.update room_id (remove_member username room) (rooms s)\<rparr>);
                       s2 = s1\<lparr>client_rooms := AList.delete c (client_rooms s1)\<rparr>
                   in send_response c
                        [(''status'', S ''success''), (''message'', S ''Left room successfully'')] s2)))"

definition handle_delete_room :: "sock \<Rightarrow> (string, jval) dict \<Rightarrow> env \<Rightarrow> server \<Rightarrow> server" where
  "handle_delete_room c request e s =
     (case strip_val (dget request ''room_id'' (JStr [])) of
        None \<Rightarrow> send_response c (error_response ''Failed to delete room'') s
      | Some room_id \<Rightarrow>
          (case map_of (clients s) c of
             None \<Rightarrow> send_response c (error_response ''Failed to delete room'') s
           | Some info \<Rightarrow>
               (let username = c_username info
                in if room_id = [] \<or> \<not> has_key (rooms s) room_id then
                     send_response c (error_response ''Room not found'') s
                   else
                     (case map_of (rooms s) room_id of
                        None \<Rightarrow> send_response c (error_response ''Failed to delete room'') s
                      | Some room \<Rightarrow>
                          if r_owner room \<noteq> username then
                            send_response c
                              (error_response ''Only the room owner can delete the room'') s
                          else
                            (let clients_to_remove =
                                   map fst (filter (\<lambda>(client_sock, client_room_id). client_room_id = room_id)
                                              (client_rooms s));
                                 s1 = s\<lparr>client_rooms := fold AList.delete clients_to_remove (client_rooms s)\<rparr>;
                                 s2 = s1\<lparr>fs := cleanup room (fs s1)\<rparr>;
                                 s3 = s2\<lparr>rooms := AList.delete room_id (rooms s2)\<rparr>
                             in send_response c
                                  [(''status'', S ''success''),
                                   (''message'', S (''Room '' @ [CHR 0x22] @ r_name room @ [CHR 0x22] @ '' deleted successfully''))]
                                  s3)))))"

text \<open>The list \<^verbatim>\<open>rooms_list\<close> that \<^verbatim>\<open>handle_list_rooms\<close> builds, and the handler.\<close>

definition rooms_list :: "server \<Rightarrow> response list" where
  "rooms_list s =
     map (\<lambda>(room_id, room).
            [(''id'', S room_id), (''name'', S (r_name room)), (''owner'', V (r_owner room)),
             (''member_count'', N (int (card (r_members room)))),
             (''created_at'', S (r_created_at room))])
         (rooms s)"

definition handle_list_rooms :: "sock \<Rightarrow> (string, jval) dict \<Rightarrow> env \<Rightarrow> server \<Rightarrow> server" where
  "handle_list_rooms c request e s =
     send_response c [(''status'', S ''success''), (''rooms'', L (rooms_list s))] s"

definition handle_upload :: "sock \<Rightarrow> (string, jval) dict \<Rightarrow> env \<Rightarrow> server \<Rightarrow> server" where
  "handle_upload c request e s =
     (case map_of (client_rooms s) c of
        None \<Rightarrow> send_response c (error_response ''Must join a room before uploading files'') s
      | Some room_id \<Rightarrow>
          (case map_of (rooms s) room_id of
             None \<Rightarrow> send_response c (error_response ''Room not found'') s
           | Some room \<Rightarrow>
               (let filename = dget request ''filename'' (JStr []);
                    file_size = dget request ''file_size'' (JInt 0);
                    uploader = dget request ''uploader'' (JStr ''Anonymous'');
                    description = dget request ''description'' (JStr [])
                in if \<not> truthy filename then
                     send_response c (error_response ''Filename is required'') s
                   else
                     (case file_size of
                        JInt fsize \<Rightarrow>
                          if fsize > 500 * 1024 * 1024 then
                            send_response c (error_response ''File too large (max 500MB)'') s
                          else
                            (case filename of
                               JStr fname \<Rightarrow>
                                 (let file_id = take 12 (uuid4 e);
                                      file_extension = splitext_ext fname;
                                      stored_filename = file_id @ file_extension;
                                      file_path = (r_room_dir room, stored_filename);
                                      s1 = send_response c
                                             [(''status'', S ''ready''), (''message'', S ''Ready to receive file'')] s
                                  in case open_wb file_path (fs s1) of
                                       None \<Rightarrow> send_response c (error_response ''Upload failed'') s1
                                     | Some fsys1 \<Rightarrow>
                                         (case upload_loop fsize 0 [] (net_in s1 c) of
                                            (received, content, inp) \<Rightarrow>
                                              (let s2 = s1\<lparr>fs := write_file file_path content fsys1,
                                                          net_in := (net_in s1)(c := inp)\<rparr>
                                               in if received \<noteq> fsize then
                                                    (let s3 = s2\<lparr>fs := (case os_remove file_path (fs s2) of
                                                                          None \<Rightarrow> fs s2
                                                                        | Some fsys3 \<Rightarrow> fsys3)\<rparr>
                                                     in send_response c (error_response ''Incomplete file transfer'') s3)
                                                  else
                                                    (let file_type = (case guess_type e fname of
                                                                        None \<Rightarrow> ''application/octet-stream''
                                                                      | Some t \<Rightarrow>
                                                                          if t = [] then ''application/octet-stream'' else t);
                                                         info = \<lparr>f_id = file_id, f_name = fname,
                                                                  f_filename = stored_filename, f_size = fsize,
                                                                  f_type = file_type, f_uploader = uploader,
                                                                  f_description = description, f_date = now e\<rparr>;
                                                         s3 = s2\<lparr>rooms := AList.update room_id (add_file info room) (rooms s2)\<rparr>
                                                     in send_response c
                                                          [(''status'', S ''success''),
                                                           (''message'', S ''File uploaded successfully''),
                                                           (''file_id'', S file_id)] s3))))
                             | _ \<Rightarrow> send_response c (error_response ''Upload failed'') s)
                      | _ \<Rightarrow> send_response c (error_response ''Upload failed'') s))))"

definition handle_download :: "sock \<Rightarrow> (string, jval) dict \<Rightarrow> env \<Rightarrow> server \<Rightarrow> server" where
  "handle_download c request e s =
     (case map_of (client_rooms s) c of
        None \<Rightarrow> send_response c (error_response ''Must join a room before downloading files'') s
      | Some room_id \<Rightarrow>
          (case map_of (rooms s) room_id of
             None \<Rightarrow> send_response c (error_response ''Room not found'') s
           | Some room \<Rightarrow>
               (case dget request ''file_id'' (JStr []) of
                  JStr file_id \<Rightarrow>
                    (case map_of (r_files room) file_id of
                       None \<Rightarrow> send_response c (error_response ''File not found'') s
                     | Some info \<Rightarrow>
                         (let file_path = (r_room_dir room, f_filename info)
                          in if \<not> file_exists file_path (fs s) then
                               send_response c (error_response ''File not found on disk'') s
                             else
                               (let s1 = send_response c
                                           [(''status'', S ''success''),
                                            (''filename'', S (f_name info)),
                                            (''file_size'', N (f_size info))] s
                                in case read_file file_path (fs s1) of
                                     None \<Rightarrow> send_response c (error_response ''Download failed'') s1
                                   | Some content \<Rightarrow>
                                       s1\<lparr>sent := sent s1 @ map (\<lambda>chunk. (c, Raw chunk)) (read_chunks content)\<rparr>)))
                | _ \<Rightarrow> send_response c (error_response ''File not found'') s)))"

definition handle_delete_file :: "sock \<Rightarrow> (string, jval) dict \<Rightarrow> env \<Rightarrow> server \<Rightarrow> server" where
  "handle_delete_file c request e s =
     (case map_of (client_rooms s) c of
        None \<Rightarrow> send_response c (error_response ''Must join a room before deleting files'') s
      | Some room_id \<Rightarrow>
          (case map_of (rooms s) room_id of
             None \<Rightarrow> send_response c (error_response ''Room not found'') s
           | Some room \<Rightarrow>
               (case dget request ''file_id'' (JStr []) of
                  JStr file_id \<Rightarrow>
                    (if \<not> has_key (r_files room) file_id then
                       send_response c (error_response ''File not found'') s
                     else
                       (case remove_file file_id room (fs s) of
                          (ok, room', fsys) \<Rightarrow>
                            (let s1 = s\<lparr>fs := fsys, rooms := AList.update room_id room' (rooms s)\<rparr>
                             in if ok then
                                  send_response c
                                    [(''status'', S ''success''), (''message'', S ''File deleted successfully'')] s1
                                else
                                  send_response c (error_response ''Failed to delete file'') s1)))
                | _ \<Rightarrow> send_response c (error_response ''File not found'') s)))"

definition handle_list_files :: "sock \<Rightarrow> (string, jval) dict \<Rightarrow> env \<Rightarrow> server \<Rightarrow> server" where
  "handle_list_files c request e s =
     (case map_of (client_rooms s) c of
        None \<Rightarrow> send_response c [(''status'', S ''success''), (''files'', L [])] s
      | Some room_id \<Rightarrow>
          (case map_of (rooms s) room_id of
             None \<Rightarrow> send_response c [(''status'', S ''success''), (''files'', L [])] s
           | Some room \<Rightarrow>
               (let files = get_file_list room
                in send_response c [(''status'', S ''success''), (''files'', L files)] s)))"

subsection \<open>The connection handler\<close>

text \<open>
  \<^verbatim>\<open>disconnect_client\<close>. Reading the user name of a socket that \<^verbatim>\<open>clients\<close> does not hold
  raises; the \<^verbatim>\<open>except\<close> clause then leaves the rest of the function out.
\<close>

definition forget_client :: "sock \<Rightarrow> server \<Rightarrow> server" where
  "forget_client c s = s\<lparr>clients := AList.delete c (clients s), closed := insert c (closed s)\<rparr>"

definition disconnect_client :: "sock \<Rightarrow> server \<Rightarrow> server" where
  "disconnect_client c s =
     (case map_of (client_rooms s) c of
        None \<Rightarrow> forget_client c s
      | Some room_id \<Rightarrow>
          (case map_of (rooms s) room_id of
             None \<Rightarrow> forget_client c (s\<lparr>client_rooms := AList.delete c (client_rooms s)\<rparr>)
           | Some room \<Rightarrow>
               (case map_of (clients s) c of
                  None \<Rightarrow> s
                | Some info \<Rightarrow>
                    forget_client c
                      (s\<lparr>rooms := AList.update room_id (remove_member (c_username info) room) (rooms s),
                         client_rooms := AList.delete c (client_rooms s)\<rparr>))))"

text \<open>The chain \<^verbatim>\<open>if command == ... elif ...\<close> of \<^verbatim>\<open>handle_client\<close>.\<close>

definition dispatch :: "sock \<Rightarrow> (string, jval) dict \<Rightarrow> env \<Rightarrow> server \<Rightarrow> server" where
  "dispatch c request e s =
     (let command = dget request ''command'' JNull
      in if command = JStr ''create_room'' then handle_create_room c request e s
         else if command = JStr ''join_room'' then handle_join_room c request e s
         else if command = JStr ''leave_room'' then handle_leave_room c request e s
         else if command = JStr ''delete_room'' then handle_delete_room c request e s
         else if command = JStr ''list_rooms'' then handle_list_rooms c request e s
         else if command = JStr ''upload'' then handle_upload c request e s
         else if command = JStr ''download'' then handle_download c request e s
         else if command = JStr ''delete'' then handle_delete_file c request e s
         else if command = JStr ''list'' then handle_list_files c request e s
         else send_response c (error_response (''Unknown command: '' @ py_str command)) s)"

text \<open>
  The body of the loop of \<^verbatim>\<open>handle_client\<close> for a request that was received: the user name
  of the session is updated, then the command is dispatched. \<open>None\<close> is the KeyError of a
  socket that \<^verbatim>\<open>clients\<close> does not hold, which ends the loop.
\<close>

definition handle_request :: "sock \<Rightarrow> (string, jval) dict \<Rightarrow> env \<Rightarrow> server \<Rightarrow> server option" where
  "handle_request c request e s =
     (case map_of (clients s) c of
        None \<Rightarrow> None
      | Some info \<Rightarrow>
          (let s1 = (if has_key request ''username'' then
                       s\<lparr>clients := AList.update c (info\<lparr>c_username := dget request ''username'' JNull\<rparr>) (clients s)\<rparr>
                     else s)
           in Some (dispatch c request e s1)))"

datatype step = Continue server | Stop server

text \<open>
  One round of the loop of \<^verbatim>\<open>handle_client\<close>. \<open>Stop\<close> carries the state after the
  \<^verbatim>\<open>finally\<close> clause, which disconnects the client: the loop has ended by its condition,
  by \<^verbatim>\<open>break\<close> (no request, or an empty one) or by an exception.
\<close>

definition client_round :: "sock \<Rightarrow> env \<Rightarrow> server \<Rightarrow> step" where
  "client_round c e s =
     (if \<not> running s then Stop (disconnect_client c s)
      else
        (case receive_request e (net_in s c) of
           (r, inp) \<Rightarrow>
             (let s1 = s\<lparr>net_in := (net_in s)(c := inp)\<rparr>
              in case r of
                   None \<Rightarrow> Stop (disconnect_client c s1)
                 | Some JNonObject \<Rightarrow> Stop (disconnect_client c s1)
                 | Some (JObject request) \<Rightarrow>
                     if request = [] then Stop (disconnect_client c s1)
                     else (case handle_request c request e s1 of
                             None \<Rightarrow> Stop (disconnect_client c s1)
                           | Some s2 \<Rightarrow> Continue s2))))"

text \<open>
  \<^verbatim>\<open>handle_client\<close>: one element of the list for each round, with the outside values of
  that round. \<open>None\<close> says that the list was used up before the loop ended.
\<close>

fun handle_client :: "sock \<Rightarrow> env list \<Rightarrow> server \<Rightarrow> server option" where
  "handle_client c [] s = None"
| "handle_client c (e # es) s =
     (case client_round c e s of
        Stop s' \<Rightarrow> Some s'
      | Continue s' \<Rightarrow> handle_client c es s')"

subsection \<open>Observations and invariants\<close>

text \<open>The status of the response that was sent last.\<close>

definition last_status :: "server \<Rightarrow> rval option" where
  "last_status s =
     (case rev (sent s) of
        [] \<Rightarrow> None
      | (c, Resp r) # _ \<Rightarrow> map_of r ''status''
      | (c, Raw b) # _ \<Rightarrow> None)"


text \<open>
  The answer to a file command of a session that is bound to no room, by command, as
  the first branch of each of the four handlers gives it.
\<close>

definition anonymous_reply :: "string \<Rightarrow> response" where
  "anonymous_reply cmd =
     (if cmd = ''upload'' then error_response ''Must join a room before uploading files''
      else if cmd = ''download'' then error_response ''Must join a room before downloading files''
      else if cmd = ''delete'' then error_response ''Must join a room before deleting files''
      else [(''status'', S ''success''), (''files'', L [])])"

text \<open>
  What holds of the room dictionary in every state the server reaches: no key twice (it
  is a dictionary), and every room stored under its own id, which is not empty, with
  the directory \<^verbatim>\<open>Room.__init__\<close> gave it.
\<close>

definition rooms_ok :: "(string, room) dict \<Rightarrow> bool" where
  "rooms_ok al =
     (distinct (map fst al) \<and>
      (\<forall>(k, r) \<in> set al. k \<noteq> [] \<and> r_id r = k \<and> r_room_dir r = path_join ''rooms'' k))"

definition registry_ok :: "server \<Rightarrow> bool" where
  "registry_ok s = rooms_ok (rooms s)"

subsection \<open>Example values\<close>

text \<open>
  Two environments, a decoder that knows four one-byte payloads, and a server that has
  started and accepted socket 1.
\<close>

definition example_env :: env where
  "example_env =
     \<lparr>uuid4 = ''3f2b8c1e-9d47-4a6b-8e21-5c7d9f0a1b2c'', now = ''2025-01-01 10:00:00'',
      guess_type = (\<lambda>n. None), loads = (\<lambda>b. None)\<rparr>"

definition example_env_beta :: env where
  "example_env_beta = example_env\<lparr>uuid4 := ''a1b2c3d4-0000-4000-8000-000000000000'', now := ''2025-01-01 10:05:00''\<rparr>"

definition example_loads :: "byte list \<Rightarrow> jdoc option" where
  "example_loads b =
     (if b = [0x4C] then Some (JObject [(''command'', JStr ''list'')])
      else if b = [0x55] then
        Some (JObject [(''command'', JStr ''upload''), (''filename'', JStr ''note.txt''), (''file_size'', JInt 5)])
      else if b = [0x44] then Some (JObject [(''command'', JStr ''download''), (''file_id'', JStr ''3f2b8c1e-9d4'')])
      else if b = [0x58] then Some (JObject [(''command'', JStr ''delete''), (''file_id'', JStr ''3f2b8c1e-9d4'')])
      else None)"

definition example_server :: server where
  "example_server =
     accept_client 1 ''10.0.0.1'' ''2025-01-01 09:00:00'' [] (start_server (FileServer_init Map.empty))"

text \<open>
  The server after socket 1 has sent \<^verbatim>\<open>create_room\<close> as user \<^verbatim>\<open>ann\<close>, with the room that
  this made, and the requests that the examples send next.
\<close>

definition example_create :: "(string, jval) dict" where
  "example_create = [(''command'', JStr ''create_room''), (''room_name'', JStr '' Alpha ''), (''username'', JStr ''ann'')]"

definition example_room :: room where
  "example_room =
     \<lparr>r_id = ''3f2b8c1e'', r_name = ''Alpha'', r_owner = JStr ''ann'', r_members = {JStr ''ann''},
      r_files = [], r_created_at = ''2025-01-01 10:00:00'', r_room_dir = ''rooms/3f2b8c1e''\<rparr>"

definition example_room_server :: server where
  "example_room_server =
     (case handle_request 1 example_create example_env example_server of
        None \<Rightarrow> example_server
      | Some s \<Rightarrow> s)"

definition example_create_beta :: "(string, jval) dict" where
  "example_create_beta = [(''command'', JStr ''create_room''), (''room_name'', JStr ''Beta''), (''username'', JStr ''ann'')]"

definition example_join :: "(string, jval) dict" where
  "example_join = [(''command'', JStr ''join_room''), (''room_id'', JStr ''3f2b8c1e''), (''username'', JStr ''ann'')]"

definition example_delete :: "(string, jval) dict" where
  "example_delete = [(''command'', JStr ''delete_room''), (''room_id'', JStr ''3f2b8c1e''), (''username'', JStr ''ann'')]"


section \<open>Properties\<close>

subsection \<open>Strings\<close>

lemma dropWhile_all_iff: "(\<forall>x \<in> set (dropWhile P xs). P x) \<longleftrightarrow> (\<forall>x \<in> set xs. P x)"
proof
  assume all: "\<forall>x \<in> set (dropWhile P xs). P x"
  have "dropWhile P xs = []"
  proof (rule ccontr)
    assume ne: "dropWhile P xs \<noteq> []"
    then have "\<not> P (hd (dropWhile P xs))" by (rule hd_dropWhile)
    moreover from ne have "hd (dropWhile P xs) \<in> set (dropWhile P xs)" by simp
    ultimately show False using all by blast
  qed
  then show "\<forall>x \<in> set xs. P x" by simp
next
  assume "\<forall>x \<in> set xs. P x"
  then show "\<forall>x \<in> set (dropWhile P xs). P x" by (auto dest: set_dropWhileD)
qed

lemma py_strip_Nil_iff: "py_strip s = [] \<longleftrightarrow> (\<forall>ch \<in> set s. py_isspace ch)"
  by (simp add: py_strip_def dropWhile_all_iff)

subsection \<open>Reading from a socket\<close>

text \<open>What \<^verbatim>\<open>recv\<close> returns is the front of the input, and it is empty only at the close.\<close>

lemma recv_concat: "recv n inp = (chunk, inp') \<Longrightarrow> chunk @ concat inp' = concat inp"
  by (induction inp arbitrary: chunk inp') (auto split: if_splits)

lemma recv_length: "recv n inp = (chunk, inp') \<Longrightarrow> length chunk \<le> n"
  by (induction inp arbitrary: chunk inp') (auto split: if_splits)

lemma recv_Nil: "recv n inp = ([], inp') \<Longrightarrow> 0 < n \<Longrightarrow> inp' = [] \<and> concat inp = []"
  by (induction inp arbitrary: inp') (auto split: if_splits)





lemma client_round_no_request:
  "fst (receive_request e (net_in s c)) = None \<Longrightarrow> \<exists>s'. client_round c e s = Stop s'"
  by (cases "receive_request e (net_in s c)") (auto simp: client_round_def)

subsection \<open>The invariant of the room dictionary\<close>

text \<open>
  \<open>registry_ok\<close> holds after \<^verbatim>\<open>FileServer.__init__\<close> and is kept by every handler, by the
  disconnect and so by every round of the connection handler, as long as the UUID
  strings are not empty. The theorems on \<^verbatim>\<open>create_room\<close> and \<^verbatim>\<open>delete_room\<close> assume it, or
  its consequence that no room has the empty id.
\<close>

lemma set_update_subset: "set (AList.update k v al) \<subseteq> insert (k, v) (set al)"
  by (induction al) auto

lemma set_delete_subset: "set (AList.delete k al) \<subseteq> set al"
  by (auto simp: AList.delete_eq)

lemma rooms_ok_update:
  "rooms_ok al \<Longrightarrow> k \<noteq> [] \<Longrightarrow> r_id r = k \<Longrightarrow> r_room_dir r = path_join ''rooms'' k \<Longrightarrow>
     rooms_ok (AList.update k r al)"
  using set_update_subset [of k r al] by (auto simp: rooms_ok_def distinct_update)

lemma rooms_ok_modify:
  assumes "rooms_ok al" and "map_of al k = Some r0"
    and "r_id r = r_id r0" and "r_room_dir r = r_room_dir r0"
  shows "rooms_ok (AList.update k r al)"
proof -
  have "(k, r0) \<in> set al" using assms(2) by (rule map_of_SomeD)
  then have "k \<noteq> [] \<and> r_id r0 = k \<and> r_room_dir r0 = path_join ''rooms'' k"
    using assms(1) by (auto simp: rooms_ok_def)
  then show ?thesis using assms by (intro rooms_ok_update) auto
qed

lemma rooms_ok_delete: "rooms_ok al \<Longrightarrow> rooms_ok (AList.delete k al)"
  using set_delete_subset [of k al] by (auto simp: rooms_ok_def distinct_delete)

lemma registry_ok_init: "registry_ok (FileServer_init fsys)"
  by (simp add: registry_ok_def rooms_ok_def FileServer_init_def)

lemma registry_ok_create_room:
  "registry_ok s \<Longrightarrow> uuid4 e \<noteq> [] \<Longrightarrow> registry_ok (handle_create_room c request e s)"
  by (simp add: registry_ok_def handle_create_room_def send_response_def Let_def Room_init_def
      add_member_def rooms_ok_update split: option.splits)

lemma registry_ok_join_room:
  "registry_ok s \<Longrightarrow> registry_ok (handle_join_room c request e s)"
  by (auto simp: registry_ok_def handle_join_room_def send_response_def Let_def
      add_member_def remove_member_def update_conv'
      split: option.splits if_splits intro!: rooms_ok_modify)

lemma registry_ok_leave_room:
  "registry_ok s \<Longrightarrow> registry_ok (handle_leave_room c request e s)"
  by (auto simp: registry_ok_def handle_leave_room_def send_response_def Let_def
      remove_member_def split: option.splits intro!: rooms_ok_modify)

lemma registry_ok_delete_room:
  "registry_ok s \<Longrightarrow> registry_ok (handle_delete_room c request e s)"
  by (auto simp: registry_ok_def handle_delete_room_def send_response_def Let_def
      split: option.splits intro!: rooms_ok_delete)

lemma registry_ok_list_rooms:
  "registry_ok s \<Longrightarrow> registry_ok (handle_list_rooms c request e s)"
  by (simp add: registry_ok_def handle_list_rooms_def send_response_def)

lemma registry_ok_list_files:
  "registry_ok s \<Longrightarrow> registry_ok (handle_list_files c request e s)"
  by (simp add: registry_ok_def handle_list_files_def send_response_def Let_def split: option.splits)

lemma registry_ok_upload:
  "registry_ok s \<Longrightarrow> registry_ok (handle_upload c request e s)"
  by (auto simp: registry_ok_def handle_upload_def send_response_def Let_def add_file_def
      split: option.splits jval.splits prod.splits intro!: rooms_ok_modify)

lemma registry_ok_download:
  "registry_ok s \<Longrightarrow> registry_ok (handle_download c request e s)"
  by (auto simp: registry_ok_def handle_download_def send_response_def Let_def
      split: option.splits jval.splits)

lemma remove_file_keeps:
  "remove_file file_id room fsys = (ok, room', fsys') \<Longrightarrow>
     r_id room' = r_id room \<and> r_room_dir room' = r_room_dir room"
  by (auto simp: remove_file_def Let_def split: option.splits if_splits)

lemma registry_ok_delete_file:
  "registry_ok s \<Longrightarrow> registry_ok (handle_delete_file c request e s)"
  by (auto simp: registry_ok_def handle_delete_file_def send_response_def Let_def
      split: option.splits jval.splits prod.splits
      dest!: remove_file_keeps intro!: rooms_ok_modify)

lemma registry_ok_dispatch:
  "registry_ok s \<Longrightarrow> uuid4 e \<noteq> [] \<Longrightarrow> registry_ok (dispatch c request e s)"
  by (simp add: dispatch_def Let_def registry_ok_create_room registry_ok_join_room
      registry_ok_leave_room registry_ok_delete_room registry_ok_list_rooms registry_ok_upload
      registry_ok_download registry_ok_delete_file registry_ok_list_files)
     (simp add: registry_ok_def send_response_def)

lemma registry_ok_handle_request:
  assumes "registry_ok s" and "uuid4 e \<noteq> []" and "handle_request c request e s = Some s'"
  shows "registry_ok s'"
proof -
  obtain s1 where s': "s' = dispatch c request e s1" and r1: "rooms s1 = rooms s"
    using assms(3) by (auto simp: handle_request_def Let_def split: option.splits if_splits)
  have "registry_ok s1" using assms(1) r1 by (simp add: registry_ok_def)
  then show ?thesis unfolding s' using assms(2) by (rule registry_ok_dispatch)
qed

lemma registry_ok_disconnect:
  "registry_ok s \<Longrightarrow> registry_ok (disconnect_client c s)"
  by (auto simp: registry_ok_def disconnect_client_def forget_client_def remove_member_def
      split: option.splits intro!: rooms_ok_modify)

lemma registry_ok_client_round:
  assumes "registry_ok s" and "uuid4 e \<noteq> []"
  shows "case client_round c e s of Continue s' \<Rightarrow> registry_ok s' | Stop s' \<Rightarrow> registry_ok s'"
proof -
  obtain r inp where rr: "receive_request e (net_in s c) = (r, inp)"
    by (cases "receive_request e (net_in s c)")
  have ok1: "registry_ok (s\<lparr>net_in := (net_in s)(c := inp)\<rparr>)"
    using assms(1) by (simp add: registry_ok_def)
  show ?thesis
    using assms ok1 rr
    by (auto simp: client_round_def Let_def registry_ok_disconnect
        split: option.splits jdoc.splits dest: registry_ok_handle_request)
qed

lemma registry_ok_accept:
  "registry_ok s \<Longrightarrow> registry_ok (accept_client c address connected inp s)"
  by (simp add: registry_ok_def accept_client_def)

lemma registry_ok_handle_client:
  "registry_ok s \<Longrightarrow> \<forall>e \<in> set es. uuid4 e \<noteq> [] \<Longrightarrow> handle_client c es s = Some s' \<Longrightarrow>
     registry_ok s'"
proof (induction es arbitrary: s)
  case Nil
  then show ?case by simp
next
  case (Cons e es)
  have step: "case client_round c e s of Continue s1 \<Rightarrow> registry_ok s1 | Stop s1 \<Rightarrow> registry_ok s1"
    using Cons.prems(1,2) by (intro registry_ok_client_round) auto
  show ?case
  proof (cases "client_round c e s")
    case (Continue s1)
    then show ?thesis using Cons step by auto
  next
    case (Stop s1)
    then show ?thesis using Cons.prems(3) step by auto
  qed
qed

lemma registry_ok_no_empty_id: "registry_ok s \<Longrightarrow> \<not> has_key (rooms s) []"
  by (auto simp: registry_ok_def rooms_ok_def has_key_def dest: map_of_SomeD)

subsection \<open>Creating a room\<close>

text \<open>
  C10. A \<^verbatim>\<open>create_room\<close> request whose \<^verbatim>\<open>room_name\<close> is missing, empty or made of white
  space only is answered with the error \<^verbatim>\<open>Room name is required\<close>, and the response is
  the only change of the state: no room, no directory, no new binding of the session.
\<close>

theorem create_room_name_required:
  assumes "map_of request ''room_name'' = None \<or>
           (\<exists>nm. map_of request ''room_name'' = Some (JStr nm) \<and> (\<forall>ch \<in> set nm. py_isspace ch))"
  shows "handle_create_room c request e s =
           s\<lparr>sent := sent s @ [(c, Resp [(''status'', S ''error''), (''message'', S ''Room name is required'')])]\<rparr>"
proof -
  have "strip_val (dget request ''room_name'' (JStr [])) = Some []"
    using assms by (auto simp: dget_def strip_val_def py_strip_Nil_iff)
  then show ?thesis
    by (simp add: handle_create_room_def send_response_def error_response_def)
qed

theorem create_room_name_required_witness:
  "handle_create_room 1
      [(''command'', JStr ''create_room''), (''room_name'', JStr ''   ''), (''username'', JStr ''ann'')]
      example_env example_server =
   example_server\<lparr>sent := [(1, Resp [(''status'', S ''error''), (''message'', S ''Room name is required'')])]\<rparr>"
  using create_room_name_required
    [of "[(''command'', JStr ''create_room''), (''room_name'', JStr ''   ''), (''username'', JStr ''ann'')]"
        1 example_env example_server]
  by (simp add: py_isspace_def example_server_def accept_client_def start_server_def FileServer_init_def)



text \<open>The example state, written out.\<close>

lemma example_room_server_eq:
  "example_room_server =
     \<lparr>running = True,
      clients = [(1, \<lparr>c_address = ''10.0.0.1'', c_username = JStr ''ann'',
                      c_connected_at = ''2025-01-01 09:00:00''\<rparr>)],
      rooms = [(''3f2b8c1e'', example_room)],
      client_rooms = [(1, ''3f2b8c1e'')],
      fs = [''rooms'' \<mapsto> Map.empty, ''rooms/3f2b8c1e'' \<mapsto> Map.empty],
      net_in = (\<lambda>c. []),
      sent = [(1, Resp [(''status'', S ''success''),
                        (''message'', S ''Room \"Alpha\" created successfully''),
                        (''room_id'', S ''3f2b8c1e''), (''room_name'', S ''Alpha'')])],
      closed = {}\<rparr>"
  by (simp add: example_room_server_def example_create_def example_env_def example_server_def
      example_room_def handle_request_def dispatch_def has_key_def handle_create_room_def dget_def strip_val_def py_strip_def py_isspace_def
      Room_init_def path_join_def makedirs_def add_member_def send_response_def
      accept_client_def start_server_def FileServer_init_def Let_def fun_upd_def)


text \<open>
  The new room is stored with \<^verbatim>\<open>self.rooms[room_id] = room\<close>, whatever the dictionary
  holds: a room that had the same id is replaced by the new one.
\<close>

lemma create_room_replaces_on_collision:
  assumes "strip_val (dget request ''room_name'' (JStr [])) = Some room_name"
    and "room_name \<noteq> []" and "length room_name \<le> 50"
  shows "rooms (handle_create_room c request e s) =
           AList.update (take 8 (uuid4 e))
             \<lparr>r_id = take 8 (uuid4 e), r_name = room_name,
              r_owner = dget request ''username'' (JStr ''Anonymous''),
              r_members = {dget request ''username'' (JStr ''Anonymous'')},
              r_files = [], r_created_at = now e,
              r_room_dir = path_join ''rooms'' (take 8 (uuid4 e))\<rparr>
             (rooms s)"
  using assms
  by (simp add: handle_create_room_def Room_init_def add_member_def send_response_def Let_def)

text \<open>
  When the request carries a \<^verbatim>\<open>username\<close>, the connection handler has made it the user
  name of the session before the room is created: owner, member and session agree.
\<close>

lemma create_room_owner_is_session_user:
  assumes "map_of (clients s) c = Some info"
    and "map_of request ''command'' = Some (JStr ''create_room'')"
    and "map_of request ''username'' = Some u"
    and "strip_val (dget request ''room_name'' (JStr [])) = Some room_name"
    and "room_name \<noteq> []" and "length room_name \<le> 50"
  shows "\<exists>s'. handle_request c request e s = Some s' \<and>
           map_option c_username (map_of (clients s') c) = Some u \<and>
           map_option r_owner (map_of (rooms s') (take 8 (uuid4 e))) = Some u \<and>
           map_option r_members (map_of (rooms s') (take 8 (uuid4 e))) = Some {u}"
  using assms
  by (simp add: handle_request_def dispatch_def has_key_def dget_def Let_def
      handle_create_room_def Room_init_def add_member_def send_response_def update_conv')

subsection \<open>Joining and leaving a room\<close>

lemma filter_key_update_other:
  "k \<noteq> k' \<Longrightarrow> filter (\<lambda>(a, b). a = k) (AList.update k' v al) = filter (\<lambda>(a, b). a = k) al"
  by (induction al) auto

lemma map_of_filter_same_key: "map_of (filter (\<lambda>(a, b). a = k) al) k = map_of al k"
  by (induction al) auto

lemma rooms_list_filter:
  "[entry \<leftarrow> rooms_list s. map_of entry ''id'' = Some (S k)] =
     map (\<lambda>(room_id, room).
            [(''id'', S room_id), (''name'', S (r_name room)), (''owner'', V (r_owner room)),
             (''member_count'', N (int (card (r_members room)))),
             (''created_at'', S (r_created_at room))])
         [(a, b) \<leftarrow> rooms s. a = k]"
  by (simp add: rooms_list_def filter_map comp_def case_prod_unfold)

lemma add_member_idem: "u \<in> r_members room \<Longrightarrow> add_member u room = room"
  by (simp add: add_member_def insert_absorb)

lemma add_remove_member: "u \<in> r_members room \<Longrightarrow> add_member u (remove_member u room) = room"
  by (simp add: add_member_def remove_member_def insert_absorb)

lemma join_room_rooms_same_key:
  assumes rid: "strip_val (dget request ''room_id'' (JStr [])) = Some room_id" "room_id \<noteq> []"
    and room: "map_of (rooms s) room_id = Some room"
    and mem: "dget request ''username'' (JStr ''Anonymous'') \<in> r_members room"
  shows "filter (\<lambda>(k, r). k = room_id) (rooms (handle_join_room c request e s)) =
         filter (\<lambda>(k, r). k = room_id) (rooms s)"
proof (cases "map_of (client_rooms s) c")
  case None
  then show ?thesis using rid room mem
    by (simp add: handle_join_room_def has_key_def Let_def send_response_def add_member_idem update_triv)
next
  case (Some old_room_id)
  show ?thesis
  proof (cases "map_of (rooms s) old_room_id")
    case None
    then show ?thesis using Some rid room mem
      by (simp add: handle_join_room_def has_key_def Let_def send_response_def add_member_idem update_triv)
  next
    case old: (Some old_room)
    show ?thesis
    proof (cases "old_room_id = room_id")
      case True
      then show ?thesis using Some old rid room mem
        by (simp add: handle_join_room_def has_key_def Let_def send_response_def update_conv'
            add_remove_member update_triv)
    next
      case False
      then have "room_id \<noteq> old_room_id" by simp
      then show ?thesis using Some old rid room mem
        by (simp add: handle_join_room_def has_key_def Let_def send_response_def update_conv'
            add_member_idem update_triv filter_key_update_other)
    qed
  qed
qed

text \<open>
  C9. The members of a room are a set: adding a user name that the set holds gives the
  same room. A \<^verbatim>\<open>join_room\<close> request for a room that holds the user name of the request
  leaves that room as it was, and with it the entry of the room in \<^verbatim>\<open>rooms_list\<close>, which
  carries the \<^verbatim>\<open>member_count\<close>.
\<close>

theorem join_room_member_idempotent:
  assumes rid: "strip_val (dget request ''room_id'' (JStr [])) = Some room_id" "room_id \<noteq> []"
    and room: "map_of (rooms s) room_id = Some room"
    and mem: "dget request ''username'' (JStr ''Anonymous'') \<in> r_members room"
  shows "add_member (dget request ''username'' (JStr ''Anonymous'')) room = room \<and>
         map_of (rooms (handle_join_room c request e s)) room_id = Some room \<and>
         [entry \<leftarrow> rooms_list (handle_join_room c request e s). map_of entry ''id'' = Some (S room_id)] =
         [entry \<leftarrow> rooms_list s. map_of entry ''id'' = Some (S room_id)]"
proof -
  have same: "filter (\<lambda>(k, r). k = room_id) (rooms (handle_join_room c request e s)) =
         filter (\<lambda>(k, r). k = room_id) (rooms s)"
    using assms by (rule join_room_rooms_same_key)
  have "map_of (rooms (handle_join_room c request e s)) room_id = map_of (rooms s) room_id"
    using map_of_filter_same_key [of room_id "rooms (handle_join_room c request e s)"]
      map_of_filter_same_key [of room_id "rooms s"] same by simp
  then show ?thesis using same mem room by (simp add: rooms_list_filter add_member_idem)
qed

theorem join_room_member_idempotent_witness:
  "map_of (rooms (handle_join_room 1 example_join example_env example_room_server)) ''3f2b8c1e'' =
     Some example_room \<and>
   [entry \<leftarrow> rooms_list (handle_join_room 1 example_join example_env example_room_server).
      map_of entry ''id'' = Some (S ''3f2b8c1e'')] =
     [[(''id'', S ''3f2b8c1e''), (''name'', S ''Alpha''), (''owner'', V (JStr ''ann'')),
       (''member_count'', N 1), (''created_at'', S ''2025-01-01 10:00:00'')]]"
  using join_room_member_idempotent
    [of example_join "''3f2b8c1e''" example_room_server example_room 1 example_env]
  by (simp add: example_join_def example_room_server_eq example_room_def rooms_list_def
      dget_def strip_val_def py_strip_def py_isspace_def)

text \<open>
  What \<^verbatim>\<open>handle_join_room\<close> does for a session that is bound to another room: the user
  name of the request leaves the member set of that room and enters the one of the
  target room.
\<close>

lemma join_room_leaves_prior_room:
  assumes "strip_val (dget request ''room_id'' (JStr [])) = Some room_id" and "room_id \<noteq> []"
    and "map_of (rooms s) room_id = Some room"
    and "map_of (client_rooms s) c = Some old_room_id" and "old_room_id \<noteq> room_id"
    and "map_of (rooms s) old_room_id = Some old_room"
  shows "let s' = handle_join_room c request e s;
             username = dget request ''username'' (JStr ''Anonymous'')
         in map_option r_members (map_of (rooms s') old_room_id) = Some (r_members old_room - {username}) \<and>
            map_option r_members (map_of (rooms s') room_id) = Some (insert username (r_members room)) \<and>
            map_of (client_rooms s') c = Some room_id"
  using assms
  by (simp add: handle_join_room_def has_key_def Let_def send_response_def update_conv'
      add_member_def remove_member_def)

text \<open>
  C1 at a concrete run. Socket 1, user \<^verbatim>\<open>ann\<close>, is in the room it created
  (\<open>example_room_server\<close>) and sends \<^verbatim>\<open>create_room\<close> once more. The session is then bound
  to the new room, and \<^verbatim>\<open>ann\<close> is a member of the new room and still a member of the
  first one: \<^verbatim>\<open>handle_create_room\<close> has no counterpart of the step
  \<^verbatim>\<open>Leave current room if in one\<close> of \<^verbatim>\<open>handle_join_room\<close>.
\<close>

theorem create_room_keeps_prior_membership:
  "map_of (client_rooms (dispatch 1 example_create_beta example_env_beta example_room_server)) 1 =
     Some ''a1b2c3d4'' \<and>
   map_option r_members
     (map_of (rooms (dispatch 1 example_create_beta example_env_beta example_room_server)) ''3f2b8c1e'') =
     Some {JStr ''ann''} \<and>
   map_option r_members
     (map_of (rooms (dispatch 1 example_create_beta example_env_beta example_room_server)) ''a1b2c3d4'') =
     Some {JStr ''ann''}"
  by (simp add: example_room_server_eq example_create_beta_def example_env_beta_def example_env_def
      example_room_def dispatch_def handle_create_room_def dget_def strip_val_def py_strip_def
      py_isspace_def Room_init_def path_join_def makedirs_def add_member_def send_response_def Let_def)

text \<open>
  C8. A \<^verbatim>\<open>leave_room\<close> command of a session that is bound to no room is answered with
  status \<^verbatim>\<open>success\<close> and the message \<^verbatim>\<open>Not in any room\<close>; nothing else changes.
\<close>

theorem leave_room_not_in_room:
  assumes "map_of (clients s) c = Some info" and "map_of (client_rooms s) c = None"
  shows "handle_leave_room c request e s =
           s\<lparr>sent := sent s @ [(c, Resp [(''status'', S ''success''), (''message'', S ''Not in any room'')])]\<rparr>"
  using assms by (simp add: handle_leave_room_def send_response_def)

theorem leave_room_not_in_room_witness:
  "handle_leave_room 1 [(''command'', JStr ''leave_room''), (''username'', JStr ''ann'')]
      example_env example_server =
   example_server\<lparr>sent := [(1, Resp [(''status'', S ''success''), (''message'', S ''Not in any room'')])]\<rparr>"
  using leave_room_not_in_room
    [of example_server 1
        "\<lparr>c_address = ''10.0.0.1'', c_username = JStr ''Anonymous'', c_connected_at = ''2025-01-01 09:00:00''\<rparr>"
        "[(''command'', JStr ''leave_room''), (''username'', JStr ''ann'')]" example_env]
  by (simp add: example_server_def accept_client_def start_server_def FileServer_init_def)

subsection \<open>Deleting a room\<close>

text \<open>After \<^verbatim>\<open>Room.cleanup\<close> the directory of the room does not exist.\<close>

lemma cleanup_removes_dir: "\<not> dir_exists (r_room_dir room) (cleanup room fsys)"
  by (auto simp: cleanup_def dir_exists_def rmtree_def split: option.splits)

lemma rooms_list_delete:
  "\<forall>entry \<in> set (map (\<lambda>(room_id, room).
            [(''id'', S room_id), (''name'', S (r_name room)), (''owner'', V (r_owner room)),
             (''member_count'', N (int (card (r_members room)))),
             (''created_at'', S (r_created_at room))]) (AList.delete k al)).
     map_of entry ''id'' \<noteq> Some (S k)"
  by (auto simp: AList.delete_eq)

text \<open>
  C2. For a session the server knows, in a state where no room has the empty id:
  \<^verbatim>\<open>delete_room\<close> is answered with status \<^verbatim>\<open>success\<close> exactly when the \<^verbatim>\<open>room_id\<close> of the
  request, stripped, is the id of a room whose owner equals the user name of the
  session. In that case the directory of the room does not exist afterwards, the room
  is out of the dictionary, and the \<^verbatim>\<open>list_rooms\<close> response that follows has no entry
  with its id.
\<close>

theorem delete_room_owner_only:
  assumes sess: "map_of (clients s) c = Some info"
    and ids: "\<not> has_key (rooms s) []"
  shows "let s' = handle_delete_room c request e s
         in (last_status s' = Some (S ''success'')) =
              (\<exists>room_id room. strip_val (dget request ''room_id'' (JStr [])) = Some room_id \<and>
                 map_of (rooms s) room_id = Some room \<and> r_owner room = c_username info) \<and>
            (\<forall>room_id room. strip_val (dget request ''room_id'' (JStr [])) = Some room_id \<longrightarrow>
                 map_of (rooms s) room_id = Some room \<longrightarrow> r_owner room = c_username info \<longrightarrow>
                   \<not> dir_exists (r_room_dir room) (fs s') \<and>
                   \<not> has_key (rooms s') room_id \<and>
                   (\<forall>entry \<in> set (rooms_list s'). map_of entry ''id'' \<noteq> Some (S room_id)) \<and>
                   handle_list_rooms c' request' e' s' =
                     s'\<lparr>sent := sent s' @ [(c', Resp [(''status'', S ''success''), (''rooms'', L (rooms_list s'))])]\<rparr>)"
proof (cases "strip_val (dget request ''room_id'' (JStr []))")
  case None
  then show ?thesis using sess
    by (simp add: handle_delete_room_def last_status_def send_response_def error_response_def Let_def)
next
  case (Some room_id)
  show ?thesis
  proof (cases "map_of (rooms s) room_id")
    case None
    then show ?thesis using Some sess
      by (simp add: handle_delete_room_def last_status_def send_response_def error_response_def
          Let_def has_key_def)
  next
    case room: (Some room)
    then have ne: "room_id \<noteq> []" using ids by (auto simp: has_key_def)
    show ?thesis
    proof (cases "r_owner room = c_username info")
      case False
      then show ?thesis using Some room sess ne
        by (simp add: handle_delete_room_def last_status_def send_response_def error_response_def
            Let_def has_key_def)
    next
      case True
      then show ?thesis using Some room sess ne rooms_list_delete [of room_id "rooms s"]
        by (simp add: handle_delete_room_def last_status_def send_response_def error_response_def
            Let_def has_key_def cleanup_removes_dir delete_conv'
            handle_list_rooms_def rooms_list_def)
    qed
  qed
qed

theorem delete_room_owner_only_witness:
  "last_status (handle_delete_room 1 example_delete example_env example_room_server) = Some (S ''success'') \<and>
   \<not> dir_exists ''rooms/3f2b8c1e'' (fs (handle_delete_room 1 example_delete example_env example_room_server)) \<and>
   \<not> has_key (rooms (handle_delete_room 1 example_delete example_env example_room_server)) ''3f2b8c1e'' \<and>
   rooms_list (handle_delete_room 1 example_delete example_env example_room_server) = []"
  using delete_room_owner_only
    [of example_room_server 1
        "\<lparr>c_address = ''10.0.0.1'', c_username = JStr ''ann'', c_connected_at = ''2025-01-01 09:00:00''\<rparr>"
        example_delete example_env 1 "[(''command'', JStr ''list_rooms'')]" example_env]
  by (simp add: example_room_server_eq example_delete_def example_room_def has_key_def
      dget_def strip_val_def py_strip_def py_isspace_def Let_def
      handle_delete_room_def cleanup_def dir_exists_def rmtree_def send_response_def rooms_list_def)

subsection \<open>File commands of a session without a room\<close>

text \<open>
  C6, as the code has it. A round of the connection handler that receives an
  \<^verbatim>\<open>upload\<close>, \<^verbatim>\<open>download\<close> or \<^verbatim>\<open>delete\<close> command from a session that is bound to no room
  sends the error that names the command (\<^verbatim>\<open>Must join a room before ...\<close>); for a \<^verbatim>\<open>list\<close>
  command it sends status \<^verbatim>\<open>success\<close> with an empty list of files. In all four cases
  the loop goes on (\<open>Continue\<close>), the socket is not closed, the session stays in
  \<^verbatim>\<open>clients\<close>, and rooms, bindings and the file system are unchanged.
\<close>

theorem file_commands_while_anonymous:
  assumes run: "running s"
    and rcv: "receive_request e (net_in s c) = (Some (JObject request), inp)"
    and cmd: "map_of request ''command'' = Some (JStr cmd)"
    and which: "cmd = ''upload'' \<or> cmd = ''download'' \<or> cmd = ''delete'' \<or> cmd = ''list''"
    and sess: "map_of (clients s) c = Some info"
    and anon: "map_of (client_rooms s) c = None"
  shows "\<exists>s'. client_round c e s = Continue s' \<and>
           sent s' = sent s @ [(c, Resp (anonymous_reply cmd))] \<and>
           rooms s' = rooms s \<and> client_rooms s' = client_rooms s \<and> fs s' = fs s \<and>
           closed s' = closed s \<and> has_key (clients s') c \<and> running s'"
proof -
  have ne: "request \<noteq> []" using cmd by auto
  show ?thesis
    using which
  proof (elim disjE)
    assume "cmd = ''upload''"
    then show ?thesis using run rcv cmd sess anon ne
      by (simp add: client_round_def handle_request_def dispatch_def dget_def has_key_def Let_def
          handle_upload_def anonymous_reply_def send_response_def update_conv')
  next
    assume "cmd = ''download''"
    then show ?thesis using run rcv cmd sess anon ne
      by (simp add: client_round_def handle_request_def dispatch_def dget_def has_key_def Let_def
          handle_download_def anonymous_reply_def send_response_def update_conv')
  next
    assume "cmd = ''delete''"
    then show ?thesis using run rcv cmd sess anon ne
      by (simp add: client_round_def handle_request_def dispatch_def dget_def has_key_def Let_def
          handle_delete_file_def anonymous_reply_def send_response_def update_conv')
  next
    assume "cmd = ''list''"
    then show ?thesis using run rcv cmd sess anon ne
      by (simp add: client_round_def handle_request_def dispatch_def dget_def has_key_def Let_def
          handle_list_files_def anonymous_reply_def send_response_def update_conv')
  qed
qed

theorem file_commands_while_anonymous_witness:
  "client_round 1 (example_env\<lparr>loads := example_loads\<rparr>)
      (example_server\<lparr>net_in := (\<lambda>c. [[0, 0, 0, 1, 0x55]])\<rparr>) =
   Continue (example_server
      \<lparr>net_in := (\<lambda>c. [[0, 0, 0, 1, 0x55]])(1 := []),
       sent := [(1, Resp [(''status'', S ''error''), (''message'', S ''Must join a room before uploading files'')])]\<rparr>)"
  using file_commands_while_anonymous
    [of "example_server\<lparr>net_in := (\<lambda>c. [[0, 0, 0, 1, 0x55]])\<rparr>"
        "example_env\<lparr>loads := example_loads\<rparr>" 1
        "[(''command'', JStr ''upload''), (''filename'', JStr ''note.txt''), (''file_size'', JInt 5)]"
        "[]" "''upload''"
        "\<lparr>c_address = ''10.0.0.1'', c_username = JStr ''Anonymous'', c_connected_at = ''2025-01-01 09:00:00''\<rparr>"]
  by (simp add: client_round_def handle_request_def dispatch_def handle_upload_def has_key_def
      dget_def send_response_def error_response_def
      receive_request_def unpack_be32_def recv_payload.simps example_loads_def example_env_def
      example_server_def accept_client_def start_server_def FileServer_init_def Let_def)

text \<open>
  The \<^verbatim>\<open>list\<close> command of a session without a room is not answered with an error: C6 as
  it is worded, with \<^verbatim>\<open>list\<close> among the commands that get one, fails here.
\<close>

theorem list_while_anonymous_is_success:
  "map_of (client_rooms example_server) 1 = None \<and>
   sent (dispatch 1 [(''command'', JStr ''list'')] example_env example_server) =
     [(1, Resp [(''status'', S ''success''), (''files'', L [])])] \<and>
   last_status (dispatch 1 [(''command'', JStr ''list'')] example_env example_server) \<noteq>
     Some (S ''error'')"
  by (simp add: dispatch_def handle_list_files_def dget_def send_response_def last_status_def
      example_server_def accept_client_def start_server_def FileServer_init_def Let_def)

text \<open>
  C7. A \<^verbatim>\<open>list\<close> command of a session that is in no room (it is bound to none, or the
  room it was bound to is gone) is answered with status \<^verbatim>\<open>success\<close> and an empty list
  of files, never with an error.
\<close>

theorem list_files_not_in_room:
  assumes "map_of (client_rooms s) c = None \<or>
           (\<exists>room_id. map_of (client_rooms s) c = Some room_id \<and> map_of (rooms s) room_id = None)"
  shows "handle_list_files c request e s =
           s\<lparr>sent := sent s @ [(c, Resp [(''status'', S ''success''), (''files'', L [])])]\<rparr>"
  using assms by (auto simp: handle_list_files_def send_response_def)

theorem list_files_not_in_room_witness:
  "handle_list_files 1 [(''command'', JStr ''list'')] example_env example_server =
   example_server\<lparr>sent := [(1, Resp [(''status'', S ''success''), (''files'', L [])])]\<rparr>"
  using list_files_not_in_room [of example_server 1 "[(''command'', JStr ''list'')]" example_env]
  by (simp add: example_server_def accept_client_def start_server_def FileServer_init_def)

subsection \<open>Uploads\<close>

text \<open>
  The upload loop takes the next bytes of the input until it has \<open>fsize\<close> of them or the
  peer closes: the count it returns is the smaller of \<open>fsize\<close> and the number of bytes
  the peer sent.
\<close>

lemma upload_loop_reads:
  "upload_loop fsize received content inp = (r, content', inp') \<Longrightarrow> 0 \<le> received \<Longrightarrow>
   received \<le> fsize \<Longrightarrow>
     r = min fsize (received + int (length (concat inp))) \<and>
     content' = content @ take (nat (r - received)) (concat inp) \<and>
     concat inp' = drop (nat (r - received)) (concat inp)"
proof (induction fsize received content inp arbitrary: r content' inp' rule: upload_loop.induct)
  case (1 fsize received content inp)
  show ?case
  proof (cases "received < fsize")
    case False
    with "1.prems" show ?thesis by (simp add: upload_loop.simps [of fsize received content inp])
  next
    case True
    obtain chunk inp1 where rc: "recv (nat (min 8192 (fsize - received))) inp = (chunk, inp1)"
      by (cases "recv (nat (min 8192 (fsize - received))) inp")
    have cat: "chunk @ concat inp1 = concat inp" using rc by (rule recv_concat)
    have len_chunk: "int (length chunk) \<le> fsize - received"
      using recv_length [OF rc] True by simp
    show ?thesis
    proof (cases "chunk = []")
      case True
      with rc \<open>received < fsize\<close> have nil: "inp1 = [] \<and> concat inp = []"
        by (intro recv_Nil [of "nat (min 8192 (fsize - received))"]) auto
      have "r = received \<and> content' = content \<and> inp' = []"
        using True rc \<open>received < fsize\<close> "1.prems"(1) nil
        by (auto simp: upload_loop.simps [of fsize received content inp])
      then show ?thesis using \<open>received < fsize\<close> by (simp add: nil)
    next
      case False
      have ul: "upload_loop fsize (received + int (length chunk)) (content @ chunk) inp1 = (r, content', inp')"
        using "1.prems"(1) rc \<open>received < fsize\<close> False
        by (simp add: upload_loop.simps [of fsize received content inp])
      have ih: "r = min fsize (received + int (length chunk) + int (length (concat inp1))) \<and>
          content' = (content @ chunk) @ take (nat (r - (received + int (length chunk)))) (concat inp1) \<and>
          concat inp' = drop (nat (r - (received + int (length chunk)))) (concat inp1)"
        using "1.IH" [OF True rc [symmetric] False ul] "1.prems"(2) len_chunk by simp
      have ln: "length (concat inp) = length chunk + length (concat inp1)"
        by (simp add: cat [symmetric])
      have r_eq: "r = min fsize (received + int (length (concat inp)))"
        using ih by (simp add: ln)
      have ge: "received + int (length chunk) \<le> r"
        using r_eq len_chunk by (simp add: ln)
      have nt: "nat (r - received) = length chunk + nat (r - (received + int (length chunk)))"
        using ge by simp
      have tk: "take (nat (r - received)) (concat inp) =
                  chunk @ take (nat (r - (received + int (length chunk)))) (concat inp1)"
        unfolding nt cat [symmetric] by simp
      have dr: "drop (nat (r - received)) (concat inp) =
                  drop (nat (r - (received + int (length chunk)))) (concat inp1)"
        unfolding nt cat [symmetric] by simp
      have ih_c: "content' = (content @ chunk) @ take (nat (r - (received + int (length chunk)))) (concat inp1)"
        using ih by blast
      have ih_i: "concat inp' = drop (nat (r - (received + int (length chunk)))) (concat inp1)"
        using ih by blast
      show ?thesis
      proof (intro conjI)
        show "r = min fsize (received + int (length (concat inp)))" by (rule r_eq)
        show "content' = content @ take (nat (r - received)) (concat inp)"
          unfolding tk ih_c by simp
        show "concat inp' = drop (nat (r - received)) (concat inp)"
          unfolding dr by (rule ih_i)
      qed
    qed
  qed
qed

lemma upload_loop_received:
  "0 \<le> fsize \<Longrightarrow> fst (upload_loop fsize 0 [] inp) = min fsize (int (length (concat inp)))"
  using upload_loop_reads [of fsize 0 "[]" inp] by (cases "upload_loop fsize 0 [] inp") simp


lemma upload_registers_only_when_complete:
  "rooms (handle_upload c request e s) = rooms s \<or>
   (\<exists>fsize. dget request ''file_size'' (JInt 0) = JInt fsize \<and>
            fst (upload_loop fsize 0 [] (net_in s c)) = fsize)"
  by (auto simp: handle_upload_def Let_def send_response_def
      split: option.splits jval.splits prod.splits)


end
